theory Spec2Isabelle
  imports Main "HOL-Library.Word"
begin

unbundle bit_operations_syntax

section \<open>Machine types at the cgo boundary\<close>

text \<open>
  The binding converts Go values to C values at every native call. Go's \<open>int\<close> is taken
  at its width on 64-bit targets, C's \<open>int\<close> has 32 bits and C's \<open>short\<close> 16. A Go
  conversion to a narrower type keeps the low bits, a conversion of a signed value to a
  wider type extends the sign, a conversion of an unsigned value extends with zeros.
\<close>

type_synonym goint = "64 word"
type_synonym cint = "32 word"
type_synonym cshort = "16 word"
type_synonym byte = "8 word"
type_synonym int16 = "16 word"

text \<open>\<open>C.int(n)\<close> for a Go \<open>int\<close>.\<close>
definition C_int :: "goint \<Rightarrow> cint" where
  "C_int n = ucast n"

text \<open>\<open>int(c)\<close> for a C \<open>int\<close>.\<close>
definition go_int :: "cint \<Rightarrow> goint" where
  "go_int c = scast c"

text \<open>\<open>C.short(n)\<close> for a Go \<open>int\<close>.\<close>
definition C_short :: "goint \<Rightarrow> cshort" where
  "C_short n = ucast n"

text \<open>A \<open>*C.WINDOW\<close>: \<open>None\<close> is the null pointer.\<close>
type_synonym cptr = "nat option"

text \<open>\<open>type Window struct { win *C.WINDOW }\<close>\<close>
record Window =
  win :: cptr

text \<open>\<open>errors.New(msg)\<close>; a nil \<open>error\<close> is \<open>None\<close>.\<close>
datatype error = Error string

text \<open>The run-time panics the variadic methods can raise.\<close>
datatype panic = IndexOutOfRange | TypeAssertion | NilDereference

section \<open>The native library\<close>

text \<open>
  Every effect of the binding is a call of a curses function. A call is recorded with the
  C values it receives; the state of the native library is the list of calls made so far.
  A character argument is recorded as the C \<open>int\<close> the binding computed, which the call
  site casts to \<open>chtype\<close>; a mouse mask is recorded as the Go \<open>int\<close> the call site casts
  to \<open>mmask_t\<close>. The widths of \<open>chtype\<close> and \<open>mmask_t\<close> are fixed by the curses header.
\<close>

datatype ccall =
    Waddch cptr cint
  | Mvwaddch cptr cint cint cint
  | Waddstr cptr string
  | Mvwaddstr cptr cint cint string
  | Wdelch cptr
  | Mvwdelch cptr cint cint
  | Wgetch cptr
  | Mvwgetch cptr cint cint
  | Wattron cptr cint
  | Wattroff cptr cint
  | Delwin cptr
  | Newwin cint cint cint cint
  | Subwin cptr cint cint cint cint
  | Derwin cptr cint cint cint cint
  | Init_pair cshort cshort cshort
  | Halfdelay cint
  | Wnoutrefresh cptr
  | Wrefresh cptr
  | Doupdate
  | Has_mouse
  | Mousemask goint

text \<open>
  The geometry fields of the C struct \<open>WINDOW\<close> behind a window pointer, as integers:
  \<open>_begy\<close>, \<open>_begx\<close> (the origin on the screen) and \<open>_maxy\<close>, \<open>_maxx\<close> (the last line
  and column inside the window; \<open>Maxyx\<close> of the binding returns \<open>_maxy + 1\<close> and
  \<open>_maxx + 1\<close> as the size).
\<close>
record WINDOW =
  begy :: int
  begx :: int
  maxy :: int
  maxx :: int

text \<open>
  What the curses header and library supply, none of it part of the repository: the
  constants \<open>ERR\<close> and \<open>OK\<close>, the variable \<open>COLOR_PAIRS\<close> (its value depends on the calls
  made so far), the macro \<open>COLOR_PAIR\<close>, the keys of the Go map \<open>attrList\<close>, the struct
  each window address holds after a given history of calls (\<open>None\<close> where there is no
  window), and the value each call returns after a given history of calls (for
  \<open>mousemask\<close>, the returned mask after its conversion to a Go \<open>int\<close>).
\<close>

record native =
  ERR :: cint
  OK :: cint
  COLOR_PAIRS :: "ccall list \<Rightarrow> cint"
  COLOR_PAIR :: "cint \<Rightarrow> cint"
  attrList :: "cint \<rightharpoonup> string"
  cwindow :: "ccall list \<Rightarrow> nat \<rightharpoonup> WINDOW"
  ret_int :: "ccall list \<Rightarrow> ccall \<Rightarrow> cint"
  ret_ptr :: "ccall list \<Rightarrow> ccall \<Rightarrow> cptr"
  ret_bool :: "ccall list \<Rightarrow> ccall \<Rightarrow> bool"
  ret_mask :: "ccall list \<Rightarrow> ccall \<Rightarrow> goint"

text \<open>A native call, by the type of what it returns.\<close>

definition call_int :: "native \<Rightarrow> ccall \<Rightarrow> ccall list \<Rightarrow> cint \<times> ccall list" where
  "call_int N c h = (ret_int N h c, h @ [c])"

definition call_ptr :: "native \<Rightarrow> ccall \<Rightarrow> ccall list \<Rightarrow> cptr \<times> ccall list" where
  "call_ptr N c h = (ret_ptr N h c, h @ [c])"

definition call_bool :: "native \<Rightarrow> ccall \<Rightarrow> ccall list \<Rightarrow> bool \<times> ccall list" where
  "call_bool N c h = (ret_bool N h c, h @ [c])"

definition call_mask :: "native \<Rightarrow> ccall \<Rightarrow> ccall list \<Rightarrow> goint \<times> ccall list" where
  "call_mask N c h = (ret_mask N h c, h @ [c])"

section \<open>Coordinate-overloaded drawing operations\<close>

text \<open>\<open>fmt.Sprintf("%d", n)\<close> for a length.\<close>
fun itoa :: "nat \<Rightarrow> string" where
  "itoa n = (if n < 10 then [char_of (48 + n)]
             else itoa (n div 10) @ [char_of (48 + n mod 10)])"

text \<open>
  \<open>func (w *Window) AddChar(args ...int)\<close>. The method returns nothing; \<open>args[count]\<close>
  panics when \<open>count\<close> is not an index of \<open>args\<close>.
\<close>
definition AddChar :: "Window \<Rightarrow> goint list \<Rightarrow> ccall list \<Rightarrow> panic + ccall list" where
  "AddChar w args h =
    (let cattr0 = (0 :: cint); count0 = (0 :: nat); y0 = (0 :: goint); x0 = (0 :: goint);
         (y, count1) = (if length args > 1 then (args ! 0, count0 + 1) else (y0, count0));
         (x, count) = (if length args > 2 then (args ! 1, count1 + 1) else (x0, count1))
     in if count < length args
        then (let cattr = cattr0 OR C_int (args ! count)
              in if count > 0
                 then Inr (h @ [Mvwaddch (win w) (C_int y) (C_int x) cattr])
                 else Inr (h @ [Waddch (win w) cattr]))
        else Inl IndexOutOfRange)"

text \<open>\<open>func (w *Window) DelChar(coord ...int) error\<close>\<close>
definition DelChar :: "native \<Rightarrow> Window \<Rightarrow> goint list \<Rightarrow> ccall list \<Rightarrow> error option \<times> ccall list" where
  "DelChar N w coord h =
    (if length coord > 2
     then (Some (Error (''Invalid number of arguments, expected 2, got '' @ itoa (length coord))), h)
     else (let (err, h') =
                 (if length coord > 1
                  then (let x0 = (0 :: goint);
                            y = coord ! 0;
                            x = (if length coord > 2 then coord ! 1 else x0)
                        in call_int N (Mvwdelch (win w) (C_int y) (C_int x)) h)
                  else call_int N (Wdelch (win w)) h)
           in if err \<noteq> OK N
              then (Some (Error ''An error occurred when trying to delete character''), h')
              else (None, h')))"

text \<open>\<open>func (w *Window) GetChar(coords ...int) int\<close>\<close>
definition GetChar :: "native \<Rightarrow> Window \<Rightarrow> goint list \<Rightarrow> ccall list \<Rightarrow> goint \<times> ccall list" where
  "GetChar N w coords h =
    (let y0 = (0 :: goint); x0 = (0 :: goint); count0 = (0 :: nat);
         (y, count1) = (if length coords > 1 then (coords ! 0, count0 + 1) else (y0, count0));
         (x, count) = (if length coords > 2 then (coords ! 1, count1 + 1) else (x0, count1))
     in if count > 0
        then (let (r, h') = call_int N (Mvwgetch (win w) (C_int y) (C_int x)) h in (go_int r, h'))
        else (let (r, h') = call_int N (Wgetch (win w)) h in (go_int r, h')))"

text \<open>
  An element of a \<open>...interface{}\<close> argument list: nil, a Go \<open>int\<close>, a \<open>string\<close>, or a
  value of any other dynamic type.
\<close>
datatype gval = GNil | GInt goint | GString string | GOther

text \<open>
  \<open>reflect.TypeOf(v).String() == "int"\<close>. \<open>reflect.TypeOf(nil)\<close> is the nil \<open>Type\<close>, and
  the method call on it panics.
\<close>
definition type_is_int :: "gval \<Rightarrow> panic + bool" where
  "type_is_int v =
    (case v of GNil \<Rightarrow> Inl NilDereference | GInt n \<Rightarrow> Inr True
     | GString s \<Rightarrow> Inr False | GOther \<Rightarrow> Inr False)"

text \<open>The type assertions \<open>v.(int)\<close> and \<open>v.(string)\<close>.\<close>
definition assert_int :: "gval \<Rightarrow> panic + goint" where
  "assert_int v = (case v of GInt n \<Rightarrow> Inr n | _ \<Rightarrow> Inl TypeAssertion)"

definition assert_string :: "gval \<Rightarrow> panic + string" where
  "assert_string v = (case v of GString s \<Rightarrow> Inr s | _ \<Rightarrow> Inl TypeAssertion)"

text \<open>
  One coordinate step of \<open>Print\<close>:
  \<open>if reflect.TypeOf(v).String() == "int" { c = v.(int); count += 1 }\<close>,
  on the pair of the coordinate variable and \<open>count\<close>.
\<close>
definition take_coord :: "gval \<Rightarrow> goint \<times> nat \<Rightarrow> panic + (goint \<times> nat)" where
  "take_coord v cc =
    (case type_is_int v of
       Inl p \<Rightarrow> Inl p
     | Inr b \<Rightarrow>
         if b then (case assert_int v of Inl p \<Rightarrow> Inl p | Inr n \<Rightarrow> Inr (n, snd cc + 1))
         else Inr cc)"

text \<open>
  \<open>func (w *Window) Print(args ...interface{})\<close>. \<open>fmt.Sprintf\<close> is a parameter; the C
  string handed to curses is recorded as the Go string it is copied from.
\<close>
definition Print ::
  "(string \<Rightarrow> gval list \<Rightarrow> string) \<Rightarrow> Window \<Rightarrow> gval list \<Rightarrow> ccall list \<Rightarrow> panic + ccall list" where
  "Print Sprintf w args h =
    (let count0 = (0 :: nat); y0 = (0 :: goint); x0 = (0 :: goint) in
     case (if length args > 1 then take_coord (args ! 0) (y0, count0) else Inr (y0, count0)) of
       Inl p \<Rightarrow> Inl p
     | Inr (y, count1) \<Rightarrow>
        (case (if length args > 2 then take_coord (args ! 1) (x0, count1) else Inr (x0, count1)) of
           Inl p \<Rightarrow> Inl p
         | Inr (x, count) \<Rightarrow>
            if count < length args
            then (case assert_string (args ! count) of
                    Inl p \<Rightarrow> Inl p
                  | Inr f \<Rightarrow>
                     (let cstr = Sprintf f (drop (count + 1) args)
                      in if count > 0
                         then Inr (h @ [Mvwaddstr (win w) (C_int y) (C_int x) cstr])
                         else Inr (h @ [Waddstr (win w) cstr])))
            else Inl IndexOutOfRange))"

section \<open>Window creation and deletion\<close>

text \<open>\<open>func NewWindow(h, w, y, x int) (window Window, err error)\<close>\<close>
definition NewWindow ::
  "native \<Rightarrow> goint \<Rightarrow> goint \<Rightarrow> goint \<Rightarrow> goint \<Rightarrow> ccall list \<Rightarrow> (Window \<times> error option) \<times> ccall list" where
  "NewWindow N hh ww y x h =
    (let err0 = None;
         (p, h') = call_ptr N (Newwin (C_int hh) (C_int ww) (C_int y) (C_int x)) h;
         window = \<lparr>win = p\<rparr>;
         err = (if win window = None then Some (Error ''Failed to create a new window'') else err0)
     in ((window, err), h'))"

text \<open>\<open>func (w *Window) Derived(height, width, y, x int) Window\<close>\<close>
definition Derived ::
  "native \<Rightarrow> Window \<Rightarrow> goint \<Rightarrow> goint \<Rightarrow> goint \<Rightarrow> goint \<Rightarrow> ccall list \<Rightarrow> Window \<times> ccall list" where
  "Derived N w height width y x h =
    (let (p, h') = call_ptr N (Derwin (win w) (C_int height) (C_int width) (C_int y) (C_int x)) h
     in (\<lparr>win = p\<rparr>, h'))"

text \<open>
  The Go store: the \<open>Window\<close> value at each address. A method receiver \<open>w *Window\<close> is a
  pointer into it (\<open>None\<close> is nil); reading \<open>w.win\<close> through a nil receiver panics.
\<close>
type_synonym gostore = "nat \<Rightarrow> Window"

text \<open>
  \<open>func (w *Window) Sub(height, width, y, x int) Window\<close>, with the receiver as a pointer
  into the store. The result carries the returned \<open>Window\<close>, the store and the native calls.
\<close>
definition Sub ::
  "native \<Rightarrow> gostore \<Rightarrow> nat option \<Rightarrow> goint \<Rightarrow> goint \<Rightarrow> goint \<Rightarrow> goint \<Rightarrow> ccall list \<Rightarrow>
     panic + (Window \<times> gostore \<times> ccall list)" where
  "Sub N st w height width y x h =
    (case w of
       None \<Rightarrow> Inl NilDereference
     | Some a \<Rightarrow>
        (let (p, h') = call_ptr N
               (Subwin (win (st a)) (C_int height) (C_int width) (C_int y) (C_int x)) h
         in Inr (\<lparr>win = p\<rparr>, st, h')))"

text \<open>
  \<open>func (w *Window) Delete() error\<close>. The method assigns to its receiver variable, which is
  local to the call. The result carries the returned error, the final value of the local
  \<open>w\<close>, the store and the native calls.
\<close>

definition Delete ::
  "native \<Rightarrow> gostore \<Rightarrow> nat option \<Rightarrow> ccall list \<Rightarrow>
     panic + (error option \<times> nat option \<times> gostore \<times> ccall list)" where
  "Delete N st w h =
    (case w of
       None \<Rightarrow> Inl NilDereference
     | Some a \<Rightarrow>
        (let (r, h') = call_int N (Delwin (win (st a))) h
         in if r = ERR N
            then Inr (Some (Error ''Failed to delete window''), w, st, h')
            else (let w' = None in Inr (None, w', st, h'))))"

section \<open>Attributes and colours\<close>

text \<open>\<open>func ColorPair(pair int) int\<close>\<close>
definition ColorPair :: "native \<Rightarrow> goint \<Rightarrow> goint" where
  "ColorPair N pair = go_int (COLOR_PAIR N (C_int pair))"

text \<open>The lookup \<open>attrList[C.int(attr)]\<close>: a missing key gives the empty string.\<close>
definition attr_name :: "native \<Rightarrow> cint \<Rightarrow> string" where
  "attr_name N a = (case attrList N a of None \<Rightarrow> [] | Some s \<Rightarrow> s)"

text \<open>\<open>func (w *Window) AttrOn(attr int) (err error)\<close>\<close>
definition AttrOn :: "native \<Rightarrow> Window \<Rightarrow> goint \<Rightarrow> ccall list \<Rightarrow> error option \<times> ccall list" where
  "AttrOn N w attr h =
    (let err0 = None;
         (r, h') = call_int N (Wattron (win w) (C_int attr)) h
     in if r = ERR N
        then (Some (Error (''Failed to set attribute: '' @ attr_name N (C_int attr))), h')
        else (err0, h'))"

text \<open>\<open>func (w *Window) AttrOff(attr int) (err error)\<close>\<close>
definition AttrOff :: "native \<Rightarrow> Window \<Rightarrow> goint \<Rightarrow> ccall list \<Rightarrow> error option \<times> ccall list" where
  "AttrOff N w attr h =
    (let err0 = None;
         (r, h') = call_int N (Wattroff (win w) (C_int attr)) h
     in if r = ERR N
        then (Some (Error (''Failed to unset attribute: '' @ attr_name N (C_int attr))), h')
        else (err0, h'))"

text \<open>\<open>func (w *Window) ColorOn(pair byte) error\<close>; \<open>C.int(pair)\<close> extends the byte with zeros.\<close>
definition ColorOn :: "native \<Rightarrow> Window \<Rightarrow> byte \<Rightarrow> ccall list \<Rightarrow> error option \<times> ccall list" where
  "ColorOn N w pair h =
    (let (r, h') = call_int N (Wattron (win w) (COLOR_PAIR N (ucast pair))) h
     in if r = ERR N then (Some (Error ''Failed to enable color pair''), h') else (None, h'))"

text \<open>\<open>func (w *Window) ColorOff(pair byte) error\<close>\<close>
definition ColorOff :: "native \<Rightarrow> Window \<Rightarrow> byte \<Rightarrow> ccall list \<Rightarrow> error option \<times> ccall list" where
  "ColorOff N w pair h =
    (let (r, h') = call_int N (Wattroff (win w) (COLOR_PAIR N (ucast pair))) h
     in if r = ERR N then (Some (Error ''Failed to enable color pair''), h') else (None, h'))"

text \<open>
  \<open>func InitPair(pair, fg, bg int16) error\<close> of \<open>ncurses.go\<close>. The test is
  \<open>pair == 0 || C.short(pair) > C.short(C.COLOR_PAIRS-1)\<close>: the subtraction is done on C
  \<open>int\<close>s, the result cut to 16 bits, the comparison signed.
\<close>
definition InitPair :: "native \<Rightarrow> int16 \<Rightarrow> int16 \<Rightarrow> int16 \<Rightarrow> ccall list \<Rightarrow> error option \<times> ccall list" where
  "InitPair N pair fg bg h =
    (if pair = 0 \<or> (ucast (COLOR_PAIRS N h - 1) :: cshort) <s (ucast pair :: cshort)
     then (Some (Error ''Invalid color pair selected''), h)
     else (let (r, h') = call_int N (Init_pair (ucast pair) (ucast fg) (ucast bg)) h
           in if r = ERR N then (Some (Error ''Failed to init color pair''), h') else (None, h')))"

text \<open>
  \<open>func InitPair(pair byte, fg, bg int) error\<close> of the library file kept under
  \<open>examples/color\<close>. The test is \<open>pair == 0 || C.int(pair) > (C.COLOR_PAIRS-1)\<close>, a signed
  comparison of C \<open>int\<close>s.
\<close>
definition InitPair_color :: "native \<Rightarrow> byte \<Rightarrow> goint \<Rightarrow> goint \<Rightarrow> ccall list \<Rightarrow> error option \<times> ccall list" where
  "InitPair_color N pair fg bg h =
    (if pair = 0 \<or> (COLOR_PAIRS N h - 1) <s (ucast pair :: cint)
     then (Some (Error ''Invalid color pair selected''), h)
     else (let (r, h') = call_int N (Init_pair (ucast pair) (C_short fg) (C_short bg)) h
           in if r = ERR N then (Some (Error ''Failed to init color pair''), h') else (None, h')))"

section \<open>Input mode\<close>

text \<open>\<open>func HalfDelay(delay int) error\<close>, the same text in both library files.\<close>
definition HalfDelay :: "native \<Rightarrow> goint \<Rightarrow> ccall list \<Rightarrow> error option \<times> ccall list" where
  "HalfDelay N delay h =
    (let cerr0 = (0 :: cint);
         (cerr, h') = (if 0 <s delay then call_int N (Halfdelay (C_int delay)) h else (cerr0, h))
     in if cerr = ERR N then (Some (Error ''Unable to set delay mode''), h') else (None, h'))"

section \<open>Refresh and update\<close>

text \<open>\<open>func (w *Window) NoutRefresh()\<close>\<close>
definition NoutRefresh :: "Window \<Rightarrow> ccall list \<Rightarrow> ccall list" where
  "NoutRefresh w h = h @ [Wnoutrefresh (win w)]"

text \<open>\<open>func (w *Window) Refresh()\<close>\<close>
definition Refresh :: "Window \<Rightarrow> ccall list \<Rightarrow> ccall list" where
  "Refresh w h = h @ [Wrefresh (win w)]"

text \<open>\<open>func Update() error\<close>\<close>
definition Update :: "native \<Rightarrow> ccall list \<Rightarrow> error option \<times> ccall list" where
  "Update N h =
    (let (r, h') = call_int N Doupdate h
     in if r = ERR N then (Some (Error ''Failed to update''), h') else (None, h'))"

section \<open>Mouse\<close>

text \<open>
  \<open>func MouseMask(mask MouseButton, old *MouseButton) int\<close> of \<open>ncurses.go\<close>. The pointer
  \<open>old\<close> is handed to curses for the previous mask and plays no part in the result.
\<close>
definition MouseMask :: "native \<Rightarrow> goint \<Rightarrow> ccall list \<Rightarrow> goint \<times> ccall list" where
  "MouseMask N requested h = call_mask N (Mousemask requested) h"

text \<open>
  \<open>func MouseMask(mask int, old *int) (m int)\<close> of the library file kept under
  \<open>examples/color\<close>; \<open>ncurses_has_mouse\<close> is the wrapper of \<open>has_mouse\<close> in the cgo preamble.
\<close>
definition MouseMask_color :: "native \<Rightarrow> goint \<Rightarrow> ccall list \<Rightarrow> goint \<times> ccall list" where
  "MouseMask_color N requested h =
    (let m0 = (0 :: goint);
         (b, h1) = call_bool N Has_mouse h
     in if b then call_mask N (Mousemask requested) h1 else (m0, h1))"

section \<open>The contract of \<open>subwin\<close>\<close>

text \<open>
  Modelled from the spec: the bounds test of \<open>subwin\<close>, which is made inside curses. The
  requested rectangle of \<open>hh\<close> lines and \<open>ww\<close> columns at the absolute screen position
  \<open>(y, x)\<close> is contained within the parent's rectangle.
\<close>
definition within_parent :: "WINDOW \<Rightarrow> int \<Rightarrow> int \<Rightarrow> int \<Rightarrow> int \<Rightarrow> bool" where
  "within_parent P hh ww y x =
    (0 \<le> hh \<and> 0 \<le> ww \<and> begy P \<le> y \<and> begx P \<le> x
     \<and> y + hh \<le> begy P + maxy P + 1 \<and> x + ww \<le> begx P + maxx P + 1)"


section \<open>A sample native library\<close>

text \<open>
  A small curses used to instantiate the theorems at concrete inputs. Its windows follow
  \<open>newwin\<close>, \<open>subwin\<close> and \<open>derwin\<close>: the screen of 24 lines and 80 columns is the window
  at address 1; \<open>newwin\<close> refuses negative arguments only; \<open>subwin\<close> (absolute position)
  and \<open>derwin\<close> (position relative to the parent) refuse a null or unknown parent and a
  rectangle that is not within the parent; a size of 0 stands for the rest of the screen
  or parent; every window created gets the next free address. It has 64 colour pairs, the
  pair number shifted into the attribute bits, every int-valued call answering \<open>OK\<close>, and
  a mouse that grants every mask.
\<close>

definition make_window :: "int \<Rightarrow> int \<Rightarrow> int \<Rightarrow> int \<Rightarrow> WINDOW option" where
  "make_window lines cols y x =
    (if 0 < lines \<and> 0 < cols
     then Some \<lparr>begy = y, begx = x, maxy = lines - 1, maxx = cols - 1\<rparr>
     else None)"

definition rest_or :: "int \<Rightarrow> int \<Rightarrow> int" where
  "rest_or n rest = (if n = 0 then rest else n)"

definition sub_window :: "WINDOW \<Rightarrow> int \<Rightarrow> int \<Rightarrow> int \<Rightarrow> int \<Rightarrow> WINDOW option" where
  "sub_window P hh ww y x =
    (if within_parent P hh ww y x
     then make_window (rest_or hh (begy P + maxy P + 1 - y)) (rest_or ww (begx P + maxx P + 1 - x)) y x
     else None)"

definition sample_new :: "(nat \<rightharpoonup> WINDOW) \<Rightarrow> ccall \<Rightarrow> WINDOW option" where
  "sample_new T c =
    (case c of
       Newwin hh ww y x \<Rightarrow>
         if 0 \<le> sint hh \<and> 0 \<le> sint ww \<and> 0 \<le> sint y \<and> 0 \<le> sint x
         then make_window (rest_or (sint hh) (24 - sint y)) (rest_or (sint ww) (80 - sint x))
                (sint y) (sint x)
         else None
     | Subwin p hh ww y x \<Rightarrow>
         (case p of
            None \<Rightarrow> None
          | Some a \<Rightarrow>
             (case T a of
                None \<Rightarrow> None
              | Some P \<Rightarrow> sub_window P (sint hh) (sint ww) (sint y) (sint x)))
     | Derwin p hh ww y x \<Rightarrow>
         (case p of
            None \<Rightarrow> None
          | Some a \<Rightarrow>
             (case T a of
                None \<Rightarrow> None
              | Some P \<Rightarrow>
                 sub_window P (sint hh) (sint ww) (begy P + sint y) (begx P + sint x)))
     | _ \<Rightarrow> None)"

text \<open>The windows and the next free address, one call further.\<close>
definition sample_step :: "(nat \<rightharpoonup> WINDOW) \<times> nat \<Rightarrow> ccall \<Rightarrow> (nat \<rightharpoonup> WINDOW) \<times> nat" where
  "sample_step s c =
    (case sample_new (fst s) c of
       None \<Rightarrow> s
     | Some W \<Rightarrow> ((fst s)(snd s \<mapsto> W), Suc (snd s)))"

definition sample_state :: "ccall list \<Rightarrow> (nat \<rightharpoonup> WINDOW) \<times> nat" where
  "sample_state h =
    foldl sample_step ([1 \<mapsto> \<lparr>begy = 0, begx = 0, maxy = 23, maxx = 79\<rparr>], 2) h"

definition sample_ptr :: "ccall list \<Rightarrow> ccall \<Rightarrow> cptr" where
  "sample_ptr h c =
    (case sample_new (fst (sample_state h)) c of
       None \<Rightarrow> None
     | Some W \<Rightarrow> Some (snd (sample_state h)))"

definition sample_native :: native where
  "sample_native =
    \<lparr>ERR = - 1, OK = 0, COLOR_PAIRS = (\<lambda>h. 64), COLOR_PAIR = (\<lambda>n. push_bit 8 n),
     attrList = Map.empty, cwindow = (\<lambda>h. fst (sample_state h)),
     ret_int = (\<lambda>h c. 0), ret_ptr = sample_ptr,
     ret_bool = (\<lambda>h c. True),
     ret_mask = (\<lambda>h c. case c of Mousemask m \<Rightarrow> m | _ \<Rightarrow> 0)\<rparr>"

text \<open>A sample store: the \<open>Window\<close> at address \<open>a\<close> holds the window pointer \<open>a\<close>.\<close>
definition sample_store :: gostore where
  "sample_store a = \<lparr>win = Some a\<rparr>"

section \<open>Conversions\<close>

lemma C_int_go_int: "C_int (go_int c) = c"
  unfolding C_int_def go_int_def
  by (rule bit_word_eqI) (auto simp: bit_simps)

lemma C_int_byte: "C_int (ucast (p :: byte)) = ucast p"
  unfolding C_int_def
  by (rule bit_word_eqI) (auto simp: bit_simps)

lemma sint_pred:
  assumes "0 \<le> sint (c :: cint)"
  shows "sint (c - 1) = sint c - 1"
proof -
  have b: "sint c < 2 ^ 31"
    using sint_lt [of c] by simp
  have "sint (c - 1) = signed_take_bit 31 (sint c - 1)"
    by (simp add: sint_word_ariths)
  also have "\<dots> = sint c - 1"
    using assms b by (intro signed_take_bit_int_eq_self) simp_all
  finally show ?thesis .
qed

lemma sint_short_of_int:
  assumes "- (2 ^ 15) \<le> sint (c :: cint)" and "sint c < 2 ^ 15"
  shows "sint (ucast c :: cshort) = sint c"
proof -
  have "sint (ucast c :: cshort) = signed_take_bit 15 (uint c)"
    by (simp add: signed_ucast_eq)
  also have "\<dots> = signed_take_bit 15 (signed_take_bit 31 (uint c))"
    by (simp add: signed_take_bit_signed_take_bit)
  also have "\<dots> = signed_take_bit 15 (sint c)"
    by (simp add: sint_uint)
  also have "\<dots> = sint c"
    using assms by (intro signed_take_bit_int_eq_self) simp_all
  finally show ?thesis .
qed

lemma sint_int_of_byte: "sint (ucast (p :: byte) :: cint) = uint p"
proof -
  have "uint p < 2 ^ 8"
    using uint_bounded [of p] by simp
  then have b: "uint p < 2 ^ 31"
    by simp
  have c: "- (2 ^ 31) \<le> uint p"
  proof -
    have "(0::int) \<le> uint p"
      by simp
    moreover have "- (2 ^ 31) \<le> (0::int)"
      by simp
    ultimately show ?thesis
      by (rule order_trans [rotated])
  qed
  have "sint (ucast p :: cint) = signed_take_bit 31 (uint p)"
    by (simp add: signed_ucast_eq)
  also have "\<dots> = uint p"
    using b c by (intro signed_take_bit_int_eq_self) simp_all
  finally show ?thesis .
qed

section \<open>The optional leading position\<close>

text \<open>
  With one position and a payload, \<open>AddChar(y, ch)\<close> and \<open>Print(y, format, values...)\<close>
  move to line \<open>y\<close>, column 0.
\<close>

lemma AddChar_single_position:
  "AddChar w [y, ch] h = Inr (h @ [Mvwaddch (win w) (C_int y) 0 (C_int ch)])"
  by (simp add: AddChar_def C_int_def)

lemma Print_single_position:
  "Print Sprintf w (GInt y # GString f # rest) h
     = Inr (h @ [Mvwaddstr (win w) (C_int y) 0 (Sprintf f rest)])"
  by (simp add: Print_def take_coord_def type_is_int_def assert_int_def assert_string_def C_int_def)

text \<open>
  C1. A drawing operation called with exactly one leading position \<open>y\<close> should take effect
  at line \<open>y\<close>, column 0. \<open>DelChar\<close> and \<open>GetChar\<close> have no payload, yet test the number of
  arguments against the thresholds of \<open>AddChar\<close>, which has one: called with the single
  argument \<open>y\<close> they never read it and issue the call without a move, \<open>wdelch\<close> and
  \<open>wgetch\<close>, which act at the current cursor position.
\<close>

theorem single_position_DelChar_GetChar_at_cursor:
  "snd (DelChar N w [y] h) = h @ [Wdelch (win w)]
   \<and> snd (DelChar N w [y] h) \<noteq> h @ [Mvwdelch (win w) (C_int y) 0]
   \<and> snd (GetChar N w [y] h) = h @ [Wgetch (win w)]
   \<and> snd (GetChar N w [y] h) \<noteq> h @ [Mvwgetch (win w) (C_int y) 0]"
  by (simp add: DelChar_def GetChar_def call_int_def)

text \<open>
  C2. \<open>DelChar(y, x)\<close> should delete the character at line \<open>y\<close>, column \<open>x\<close>. Inside the
  branch for more than one argument, \<open>x\<close> is read only when there are more than two, which
  the first test of the method has already excluded: the call is \<open>mvwdelch\<close> at line \<open>y\<close>,
  column 0, whatever \<open>x\<close> is. \<open>DelChar(3, 7)\<close> does not delete at line 3, column 7.
\<close>

theorem DelChar_two_positions_ignores_x:
  "snd (DelChar N w [y, x] h) = h @ [Mvwdelch (win w) (C_int y) 0]
   \<and> snd (DelChar N w [3, 7] h) \<noteq> h @ [Mvwdelch (win w) (C_int 3) (C_int 7)]"
  by (simp add: DelChar_def call_int_def C_int_def)

text \<open>
  C7. \<open>Print\<close> and \<open>AddChar\<close> should never end in a run-time panic. \<open>Print\<close> tests its
  second argument for an \<open>int\<close> whether or not the first was one: for a format and two
  integer values the first value is taken for the column, \<open>count\<close> becomes 1 and the type
  assertion \<open>args[1].(string)\<close> fails. Called with no argument at all, both methods index
  \<open>args[0]\<close> out of range.
\<close>

theorem Print_AddChar_panic:
  "Print Sprintf w [GString ''%d %d'', GInt 1, GInt 2] h = Inl TypeAssertion
   \<and> Print Sprintf w [] h = Inl IndexOutOfRange
   \<and> AddChar w [] h = Inl IndexOutOfRange"
  by (simp add: Print_def AddChar_def take_coord_def type_is_int_def assert_int_def
      assert_string_def)

section \<open>Sub-windows\<close>

text \<open>
  \<open>Derived\<close> makes the call of \<open>Sub\<close> with \<open>derwin\<close> for \<open>subwin\<close> and, like it, has the
  single result \<open>Window\<close>. \<open>NewWindow\<close> has an error result and sets it when curses returns
  the null pointer.
\<close>

lemma Derived_returns_native_handle:
  "Derived N w height width y x h =
     (\<lparr>win = ret_ptr N h (Derwin (win w) (C_int height) (C_int width) (C_int y) (C_int x))\<rparr>,
      h @ [Derwin (win w) (C_int height) (C_int width) (C_int y) (C_int x)])"
  by (simp add: Derived_def call_ptr_def)

lemma NewWindow_reports_null:
  assumes "ret_ptr N h (Newwin (C_int hh) (C_int ww) (C_int y) (C_int x)) = None"
  shows "fst (NewWindow N hh ww y x h)
    = (\<lparr>win = None\<rparr>, Some (Error ''Failed to create a new window''))"
  using assms by (simp add: NewWindow_def call_ptr_def)


lemma sample_Sub_inside:
  "Sub sample_native sample_store (Some 1) 10 10 2 3 []
     = Inr (\<lparr>win = Some 2\<rparr>, sample_store, [Subwin (Some 1) 10 10 2 3])"
  by (simp add: Sub_def call_ptr_def sample_native_def sample_ptr_def sample_state_def
      sample_new_def sub_window_def within_parent_def make_window_def rest_or_def
      sample_store_def C_int_def)




section \<open>Colour pairs\<close>

text \<open>
  C4. Where \<open>COLOR_PAIRS\<close> is a count (not negative), both versions of \<open>InitPair\<close> return
  the error \<open>Invalid color pair selected\<close> for pair 0 and for every pair that is at least
  \<open>COLOR_PAIRS\<close>, whatever \<open>fg\<close> and \<open>bg\<close> are, and the list of native calls is the one
  before the call: \<open>init_pair\<close> has not been invoked.
\<close>

theorem InitPair_rejects_before_registration:
  assumes "0 \<le> sint (COLOR_PAIRS N h)"
  shows "(pair = 0 \<or> sint (COLOR_PAIRS N h) \<le> sint pair \<longrightarrow>
            InitPair N pair fg bg h = (Some (Error ''Invalid color pair selected''), h))
       \<and> (bpair = 0 \<or> sint (COLOR_PAIRS N h) \<le> uint bpair \<longrightarrow>
            InitPair_color N bpair fg' bg' h = (Some (Error ''Invalid color pair selected''), h))"
proof (intro conjI impI)
  assume inv: "pair = 0 \<or> sint (COLOR_PAIRS N h) \<le> sint pair"
  show "InitPair N pair fg bg h = (Some (Error ''Invalid color pair selected''), h)"
  proof (cases "pair = 0")
    case True
    then show ?thesis
      by (simp add: InitPair_def)
  next
    case False
    with inv have le: "sint (COLOR_PAIRS N h) \<le> sint pair"
      by simp
    have "sint pair < 2 ^ 15"
      using sint_lt [of pair] by simp
    with le assms have r: "- (2 ^ 15) \<le> sint (COLOR_PAIRS N h - 1)"
        "sint (COLOR_PAIRS N h - 1) < 2 ^ 15"
      by (simp_all add: sint_pred)
    have "sint (ucast (COLOR_PAIRS N h - 1) :: cshort) = sint (COLOR_PAIRS N h) - 1"
      using r assms by (simp add: sint_short_of_int sint_pred)
    with le have "(ucast (COLOR_PAIRS N h - 1) :: cshort) <s pair"
      by (simp add: word_sless_alt)
    then show ?thesis
      by (simp add: InitPair_def)
  qed
next
  assume inv: "bpair = 0 \<or> sint (COLOR_PAIRS N h) \<le> uint bpair"
  show "InitPair_color N bpair fg' bg' h = (Some (Error ''Invalid color pair selected''), h)"
  proof (cases "bpair = 0")
    case True
    then show ?thesis
      by (simp add: InitPair_color_def)
  next
    case False
    with inv have le: "sint (COLOR_PAIRS N h) \<le> uint bpair"
      by simp
    with assms have "(COLOR_PAIRS N h - 1) <s (ucast bpair :: cint)"
      by (simp add: word_sless_alt sint_pred sint_int_of_byte)
    then show ?thesis
      by (simp add: InitPair_color_def)
  qed
qed

text \<open>With 64 colour pairs: pair 64, pair 255 (the call of the colour example) and pair 0.\<close>

theorem InitPair_rejects_before_registration_witness:
  "0 \<le> sint (COLOR_PAIRS sample_native [])
   \<and> sint (COLOR_PAIRS sample_native []) \<le> sint (64 :: int16)
   \<and> InitPair sample_native 64 0 6 [] = (Some (Error ''Invalid color pair selected''), [])
   \<and> sint (COLOR_PAIRS sample_native []) \<le> uint (255 :: byte)
   \<and> InitPair_color sample_native 255 0 6 [] = (Some (Error ''Invalid color pair selected''), [])
   \<and> InitPair sample_native 0 7 0 [] = (Some (Error ''Invalid color pair selected''), [])
   \<and> InitPair_color sample_native 0 7 0 [] = (Some (Error ''Invalid color pair selected''), [])"
proof -
  have c: "0 \<le> sint (COLOR_PAIRS sample_native [])"
    by (simp add: sample_native_def)
  have a: "sint (COLOR_PAIRS sample_native []) \<le> sint (64 :: int16)"
    by (simp add: sample_native_def)
  have b: "sint (COLOR_PAIRS sample_native []) \<le> uint (255 :: byte)"
    by (simp add: sample_native_def)
  from InitPair_rejects_before_registration [OF c, where pair = 64 and bpair = 255 and fg = 0
      and bg = 6 and fg' = 0 and bg' = 6]
    InitPair_rejects_before_registration [OF c, where pair = 0 and bpair = 0 and fg = 7
      and bg = 0 and fg' = 7 and bg' = 0]
    a b c
  show ?thesis
    by simp
qed

text \<open>A pair in range is registered: the rejection is not the only path.\<close>

lemma InitPair_valid_registers:
  "InitPair sample_native 1 4 7 [] = (None, [Init_pair 1 4 7])
   \<and> InitPair_color sample_native 1 4 7 [] = (None, [Init_pair 1 4 7])"
  by (simp add: InitPair_def InitPair_color_def sample_native_def call_int_def C_short_def
      word_sless_alt)

text \<open>
  C5. For every pair number \<open>pid\<close> that \<open>ColorOn\<close> accepts (a byte), \<open>AttrOn(ColorPair(int(pid)))\<close>
  and \<open>ColorOn(pid)\<close> issue the same native call, \<open>wattron\<close> on the window with the value
  \<open>COLOR_PAIR(pid)\<close>: the conversions through Go's \<open>int\<close> lose no bit. One reports an
  error exactly when the other does.
\<close>

theorem AttrOn_ColorPair_is_ColorOn:
  "snd (AttrOn N w (ColorPair N (ucast pid)) h)
      = h @ [Wattron (win w) (COLOR_PAIR N (ucast pid))]
   \<and> snd (ColorOn N w pid h) = h @ [Wattron (win w) (COLOR_PAIR N (ucast pid))]
   \<and> (fst (AttrOn N w (ColorPair N (ucast pid)) h) = None) = (fst (ColorOn N w pid h) = None)"
  by (simp add: AttrOn_def ColorOn_def ColorPair_def call_int_def C_int_go_int C_int_byte
      split: prod.splits)

section \<open>Deleting a window\<close>

text \<open>
  C9. \<open>Delete\<close> through a pointer to any \<open>Window\<close> of the store makes the one native call
  \<open>delwin\<close> on the window's handle and returns with the store as it was: the caller's
  \<open>Window\<close> still holds the handle. The assignment \<open>w = nil\<close> is reached exactly when no
  error is returned, and changes the method's own variable only.
\<close>

theorem Delete_keeps_callers_Window:
  "\<exists>e w'. Delete N st (Some a) h = Inr (e, w', st, h @ [Delwin (win (st a))])
      \<and> (w' = None) = (e = None)"
  by (simp add: Delete_def call_int_def)

lemma Delete_sample:
  "Delete sample_native (\<lambda>a. \<lparr>win = Some (7 + a)\<rparr>) (Some 2) []
     = Inr (None, None, (\<lambda>a. \<lparr>win = Some (7 + a)\<rparr>), [Delwin (Some 9)])"
  by (simp add: Delete_def call_int_def sample_native_def)

section \<open>Half-delay mode\<close>

text \<open>
  C10. For every \<open>delay\<close> that is not positive, \<open>HalfDelay\<close> returns nil and the list of
  native calls is the one before the call: \<open>halfdelay\<close> has not been invoked. The variable
  \<open>cerr\<close> keeps its zero value, which is compared with \<open>C.ERR\<close>; the curses header defines
  \<open>ERR\<close> as -1, and all that is used of it here is that it is not 0.
\<close>

theorem HalfDelay_nonpositive_is_noop:
  assumes "sint delay \<le> 0" and "ERR N \<noteq> 0"
  shows "HalfDelay N delay h = (None, h)"
  using assms by (simp add: HalfDelay_def word_sless_alt)

theorem HalfDelay_nonpositive_is_noop_witness:
  "sint (0 :: goint) \<le> 0 \<and> sint (- 3 :: goint) \<le> 0 \<and> ERR sample_native \<noteq> 0
   \<and> HalfDelay sample_native 0 [Halfdelay 5] = (None, [Halfdelay 5])
   \<and> HalfDelay sample_native (- 3) [] = (None, [])"
proof -
  have a: "sint (0 :: goint) \<le> 0"
    by simp
  have b: "sint (- 3 :: goint) \<le> 0"
    by simp
  have e: "ERR sample_native \<noteq> 0"
    by (simp add: sample_native_def)
  from HalfDelay_nonpositive_is_noop [OF a e, of "[Halfdelay 5]"]
    HalfDelay_nonpositive_is_noop [OF b e, of "[]"] a b e
  show ?thesis
    by simp
qed

lemma HalfDelay_positive_calls:
  "HalfDelay sample_native 5 [] = (None, [Halfdelay 5])"
  by (simp add: HalfDelay_def word_sless_alt call_int_def sample_native_def C_int_def)

section \<open>What the binding leaves to curses\<close>

text \<open>
  The two ways of bringing two windows to the terminal are two different sequences of
  native calls; what each leaves on the terminal is decided inside curses.
\<close>

lemma refresh_paths_calls:
  "snd (Update N (NoutRefresh b (NoutRefresh a h)))
      = h @ [Wnoutrefresh (win a), Wnoutrefresh (win b), Doupdate]"
  "Refresh b (Refresh a h) = h @ [Wrefresh (win a), Wrefresh (win b)]"
  by (simp_all add: Update_def NoutRefresh_def Refresh_def call_int_def split: prod.splits)

text \<open>
  The granted mouse mask is the answer of \<open>mousemask\<close>, handed on as it is; the older
  \<open>MouseMask\<close> returns 0 without asking when curses has no mouse.
\<close>

lemma MouseMask_passes_answer:
  "MouseMask N requested h = (ret_mask N h (Mousemask requested), h @ [Mousemask requested])"
  by (simp add: MouseMask_def call_mask_def)

lemma MouseMask_color_cases:
  "MouseMask_color N requested h =
    (if ret_bool N h Has_mouse
     then (ret_mask N (h @ [Has_mouse]) (Mousemask requested),
           h @ [Has_mouse, Mousemask requested])
     else (0, h @ [Has_mouse]))"
  by (simp add: MouseMask_color_def call_bool_def call_mask_def)

end
